theory Spec2Isabelle
  imports Complex_Main
begin

section \<open>The data model of \<open>src/lib/google-generic-pass.ts\<close>\<close>

text \<open>
  Every TypeScript interface of the module is a record with the same fields. An optional
  field (\<open>f?: T\<close>) has type \<open>T option\<close>, with \<open>None\<close> for \<open>undefined\<close>; an
  array is a list. A field name that several interfaces share carries a suffix naming
  its interface (\<open>id_tm\<close> is \<open>TextModuleObject.id\<close>), because record fields are
  constants of the theory; \<open>value\<close>, \<open>end\<close>, \<open>typ\<close> and \<open>fields\<close> are suffixed as well,
  being reserved. An inline object type of the source gets a record named after the field that
  holds it (\<open>DefaultValue\<close>, \<open>SourceUri\<close>, \<open>LabelValue\<close>, \<open>LinkUri\<close>, \<open>DateValue\<close>).

  A string is a list of 8-bit characters, read as the code units U+0000 to U+00FF.
  No function of the module computes with a \<open>number\<close> or compares two of them: the
  numbers are stored and read back, and the reals stand for them.

  The index signature \<open>[key: string]: unknown\<close> of the two top-level interfaces, which
  \<open>addCustomField\<close> writes through, is outside the model: the records hold the declared
  fields only, with values of their declared types. \<open>setServiceAccountCredentials\<close>, which
  reads the file system, and \<open>debugPayload\<close>, which prints, are left out as well.
\<close>

type_synonym number = real

record DefaultValue =
  language :: string
  value_dv :: string

record LocalizedObject =
  defaultValue :: DefaultValue

record TextModuleObject =
  id_tm :: string
  header_tm :: "string option"
  body :: string

record SourceUri =
  uri_src :: string

text \<open>
  \<open>ImageObject.contentDescription\<close> is declared inline with the shape of
  \<open>LocalizedObject\<close>; the model uses that record for it.
\<close>

record ImageObject =
  sourceUri :: SourceUri
  contentDescription :: "LocalizedObject option"

record ImageModuleObject =
  id_im :: string
  mainImage :: ImageObject

record BarcodeObject =
  type_bc :: string
  value_bc :: string
  alternateText :: "string option"

record LinkUri =
  uri_link :: string
  description_link :: string
  id_link :: string

record LinksModuleObject =
  uris :: "LinkUri list"

record LatLongPoint =
  latitude :: number
  longitude :: number

record DateValue =
  date :: string

record TimeInterval =
  start :: DateValue
  end_ti :: "DateValue option"

record LabelValue =
  label :: string
  value_lv :: string

record InfoModuleData =
  id_info :: string
  labelValue :: LabelValue

record AppTarget =
  targetUri :: string

record AppLinkInfo =
  appLogoImage :: "ImageObject option"
  title :: string
  description_app :: "string option"
  appTarget :: AppTarget

record AppLinkData =
  androidAppLinkInfo :: "AppLinkInfo option"
  iosAppLinkInfo :: "AppLinkInfo option"
  webAppLinkInfo :: "AppLinkInfo option"

record GroupingInfo =
  groupingId :: string
  sortIndex :: "number option"

record FieldReference =
  fieldPath :: string

record TemplateItemValue =
  fields_tiv :: "FieldReference list option"

record TemplateItem =
  firstValue :: "TemplateItemValue option"
  secondValue :: "TemplateItemValue option"

record TwoItemsInfo =
  startItem_two :: "TemplateItem option"
  endItem_two :: "TemplateItem option"

record ThreeItemsInfo =
  startItem_three :: "TemplateItem option"
  middleItem :: "TemplateItem option"
  endItem_three :: "TemplateItem option"

record OneItemInfo =
  item :: "TemplateItem option"

record CardRowTemplateInfo =
  twoItems :: "TwoItemsInfo option"
  threeItems :: "ThreeItemsInfo option"
  oneItem :: "OneItemInfo option"

record CardTemplateOverride =
  cardRowTemplateInfos :: "CardRowTemplateInfo list option"

record ClassTemplateInfo =
  cardTemplateOverride :: "CardTemplateOverride option"

record GoogleGenericPassObject =
  id_obj :: string
  classId :: string
  genericType :: string
  hexBackgroundColor :: "string option"
  logo :: "ImageObject option"
  cardTitle :: "LocalizedObject option"
  header :: "LocalizedObject option"
  subheader :: "LocalizedObject option"
  textModulesData :: "TextModuleObject list option"
  linksModuleData :: "LinksModuleObject option"
  imageModulesData :: "ImageModuleObject list option"
  barcode :: "BarcodeObject option"
  heroImage :: "ImageObject option"
  validTimeInterval :: "TimeInterval option"
  locations :: "LatLongPoint list option"
  customInfoModules :: "InfoModuleData list option"
  additionalInfo :: "InfoModuleData list option"
  appLinkData :: "AppLinkData option"
  groupingInfo :: "GroupingInfo option"

record GoogleGenericPassClass =
  id_cls :: string
  issuerName :: string
  reviewStatus :: "string option"
  logoImage :: "ImageObject option"
  heroImage_cls :: "ImageObject option"
  hexBackgroundColor_cls :: "string option"
  classTemplateInfo :: "ClassTemplateInfo option"

text \<open>
  The private state of a \<open>GoogleGenericPass\<close> instance. Every method of the class is a
  function that takes this state last and gives the state after the call (the methods
  return \<open>this\<close>).
\<close>

record GoogleGenericPass =
  passObject :: GoogleGenericPassObject
  passClass :: "GoogleGenericPassClass option"
  serviceAccountEmail :: "string option"
  privateKey :: "string option"

text \<open>A thrown \<open>Error\<close>, with its message.\<close>

datatype error = Error string


section \<open>Strings as JavaScript reads them\<close>

text \<open>
  \<open>String.prototype.trim\<close> removes white space and line terminators from both ends.
  Among the code units below U+0100 these are TAB, LF, VT, FF, CR, SPACE and NBSP.
\<close>

definition isWhiteSpace :: "char \<Rightarrow> bool" where
  "isWhiteSpace c = (c = CHR 0x09 \<or> c = CHR 0x0A \<or> c = CHR 0x0B \<or> c = CHR 0x0C
     \<or> c = CHR 0x0D \<or> c = CHR 0x20 \<or> c = CHR 0xA0)"

definition trim :: "string \<Rightarrow> string" where
  "trim s = rev (dropWhile isWhiteSpace (rev (dropWhile isWhiteSpace s)))"

text \<open>
  The truth value of an optional string: \<open>undefined\<close> and the empty string are falsy.
\<close>

definition truthy :: "string option \<Rightarrow> bool" where
  "truthy v = (case v of None \<Rightarrow> False | Some s \<Rightarrow> s \<noteq> [])"

text \<open>The expression \<open>a || b\<close> on an optional string \<open>a\<close> and a string \<open>b\<close>.\<close>

definition orElse :: "string option \<Rightarrow> string \<Rightarrow> string" where
  "orElse a b = (case a of None \<Rightarrow> b | Some s \<Rightarrow> if s = [] then b else s)"


section \<open>The private helpers\<close>

definition ensureNonEmptyString :: "string option \<Rightarrow> string \<Rightarrow> string" where
  "ensureNonEmptyString v fallback =
     (case v of
        None \<Rightarrow> fallback
      | Some s \<Rightarrow> if s = [] \<or> trim s = [] then fallback else s)"

definition createImageObject :: "string \<Rightarrow> string option \<Rightarrow> ImageObject" where
  "createImageObject imageUrl description =
     \<lparr>sourceUri = \<lparr>uri_src = imageUrl\<rparr>,
      contentDescription =
        Some \<lparr>defaultValue = \<lparr>language = ''en-US'', value_dv = orElse description ''Image''\<rparr>\<rparr>\<rparr>"


section \<open>The constructor\<close>

definition constructor :: "string \<Rightarrow> string \<Rightarrow> string \<Rightarrow> GoogleGenericPass" where
  "constructor issuerId passId classId' =
     \<lparr>passObject =
        \<lparr>id_obj = issuerId @ ''.'' @ passId,
         classId = issuerId @ ''.'' @ classId',
         genericType = ''GENERIC_TYPE_UNSPECIFIED'',
         hexBackgroundColor = None,
         logo = None,
         cardTitle = None,
         header = None,
         subheader = None,
         textModulesData = None,
         linksModuleData = None,
         imageModulesData = None,
         barcode = None,
         heroImage = None,
         validTimeInterval = None,
         locations = None,
         customInfoModules = None,
         additionalInfo =
           Some [\<lparr>id_info = ''default_info'',
                  labelValue = \<lparr>label = ''Info'', value_lv = ''See details''\<rparr>\<rparr>],
         appLinkData = None,
         groupingInfo = None\<rparr>,
      passClass = None,
      serviceAccountEmail = None,
      privateKey = None\<rparr>"


section \<open>The pass class\<close>

definition setServiceAccountCredentialsFromKeyData ::
    "string \<Rightarrow> string \<Rightarrow> GoogleGenericPass \<Rightarrow> GoogleGenericPass" where
  "setServiceAccountCredentialsFromKeyData email key g =
     g\<lparr>serviceAccountEmail := Some email, privateKey := Some key\<rparr>"

definition setPassClass :: "string \<Rightarrow> GoogleGenericPass \<Rightarrow> GoogleGenericPass" where
  "setPassClass issuer g =
     g\<lparr>passClass :=
         Some \<lparr>id_cls = classId (passObject g),
               issuerName = issuer,
               reviewStatus = None,
               logoImage = None,
               heroImage_cls = None,
               hexBackgroundColor_cls = None,
               classTemplateInfo = None\<rparr>\<rparr>"

text \<open>
  Several methods assign an optional field under \<open>if (x)\<close>, with \<open>x\<close> an optional
  string argument. \<open>whenTruthy x f\<close> is the field after such a statement, starting from
  an absent field: \<open>f\<close> applied to the string when it is truthy.
\<close>

definition whenTruthy :: "string option \<Rightarrow> (string \<Rightarrow> 'a) \<Rightarrow> 'a option" where
  "whenTruthy x f = (case x of None \<Rightarrow> None | Some s \<Rightarrow> if s = [] then None else Some (f s))"

definition setPassClassWithDetails ::
    "string \<Rightarrow> string option \<Rightarrow> string option \<Rightarrow> string option \<Rightarrow> string option
       \<Rightarrow> string option \<Rightarrow> string option \<Rightarrow> GoogleGenericPass \<Rightarrow> GoogleGenericPass" where
  "setPassClassWithDetails issuer review logoImageUrl logoDescription heroImageUrl
       heroDescription hexColor g =
     g\<lparr>passClass :=
         Some \<lparr>id_cls = classId (passObject g),
               issuerName = ensureNonEmptyString (Some issuer) ''Issuer'',
               reviewStatus = whenTruthy review (\<lambda>s. s),
               logoImage = whenTruthy logoImageUrl (\<lambda>u. createImageObject u logoDescription),
               heroImage_cls = whenTruthy heroImageUrl (\<lambda>u. createImageObject u heroDescription),
               hexBackgroundColor_cls = whenTruthy hexColor (\<lambda>s. s),
               classTemplateInfo = None\<rparr>\<rparr>"

text \<open>
  \<open>setClassTemplateInfo\<close> throws when no pass class exists. Its result is the thrown
  error, if any, and the state of the instance when the call ends.
\<close>

definition setClassTemplateInfo ::
    "CardRowTemplateInfo list \<Rightarrow> GoogleGenericPass \<Rightarrow> error option \<times> GoogleGenericPass" where
  "setClassTemplateInfo cardRowTemplates g =
     (case passClass g of
        None \<Rightarrow> (Some (Error ''Pass class must be created before adding template info''), g)
      | Some c \<Rightarrow>
          (None,
           g\<lparr>passClass :=
               Some (c\<lparr>classTemplateInfo :=
                         Some \<lparr>cardTemplateOverride =
                                 Some \<lparr>cardRowTemplateInfos = Some cardRowTemplates\<rparr>\<rparr>\<rparr>)\<rparr>))"

definition createTwoItemsRow :: "string option \<Rightarrow> string option \<Rightarrow> CardRowTemplateInfo" where
  "createTwoItemsRow startFieldPath endFieldPath =
     \<lparr>twoItems =
        Some \<lparr>startItem_two =
                 whenTruthy startFieldPath
                   (\<lambda>path. \<lparr>firstValue = Some \<lparr>fields_tiv = Some [\<lparr>fieldPath = path\<rparr>]\<rparr>,
                             secondValue = None\<rparr>),
              endItem_two =
                 whenTruthy endFieldPath
                   (\<lambda>path. \<lparr>firstValue = Some \<lparr>fields_tiv = Some [\<lparr>fieldPath = path\<rparr>]\<rparr>,
                             secondValue = None\<rparr>)\<rparr>,
      threeItems = None,
      oneItem = None\<rparr>"


section \<open>The pass object's setters\<close>

definition setBasicInfo ::
    "string \<Rightarrow> string option \<Rightarrow> GoogleGenericPass \<Rightarrow> GoogleGenericPass" where
  "setBasicInfo gtype hexColor g =
     (let p = (passObject g)\<lparr>genericType := gtype\<rparr>
      in g\<lparr>passObject := (if truthy hexColor then p\<lparr>hexBackgroundColor := hexColor\<rparr> else p)\<rparr>)"

definition setCardTitle :: "string \<Rightarrow> GoogleGenericPass \<Rightarrow> GoogleGenericPass" where
  "setCardTitle t g =
     g\<lparr>passObject := (passObject g)
        \<lparr>cardTitle :=
           Some \<lparr>defaultValue =
                   \<lparr>language = ''en-US'',
                    value_dv = ensureNonEmptyString (Some t) ''Card''\<rparr>\<rparr>\<rparr>\<rparr>"

definition setHeaderInfo ::
    "string \<Rightarrow> string option \<Rightarrow> GoogleGenericPass \<Rightarrow> GoogleGenericPass" where
  "setHeaderInfo h sub g =
     (let p = (passObject g)
            \<lparr>header :=
               Some \<lparr>defaultValue =
                       \<lparr>language = ''en-US'',
                        value_dv = ensureNonEmptyString (Some h) ''Header''\<rparr>\<rparr>\<rparr>
      in g\<lparr>passObject :=
            (if truthy sub
             then p\<lparr>subheader :=
                      Some \<lparr>defaultValue =
                              \<lparr>language = ''en-US'',
                               value_dv = ensureNonEmptyString sub ''Subheader''\<rparr>\<rparr>\<rparr>
             else p)\<rparr>)"

text \<open>
  The methods that push onto an array first store \<open>[]\<close> where the field is
  \<open>undefined\<close>. \<open>initialized\<close> is the array after that step.
\<close>

definition initialized :: "'a list option \<Rightarrow> 'a list" where
  "initialized xs = (case xs of None \<Rightarrow> [] | Some ys \<Rightarrow> ys)"

definition addTextModule ::
    "string \<Rightarrow> string \<Rightarrow> string option \<Rightarrow> GoogleGenericPass \<Rightarrow> GoogleGenericPass" where
  "addTextModule i b h g =
     g\<lparr>passObject := (passObject g)
        \<lparr>textModulesData :=
           Some (initialized (textModulesData (passObject g)) @
                 [\<lparr>id_tm = i,
                   header_tm =
                     (if truthy h then Some (ensureNonEmptyString h ''Section'') else None),
                   body = ensureNonEmptyString (Some b) ''Information''\<rparr>])\<rparr>\<rparr>"

definition setLogo :: "string \<Rightarrow> string option \<Rightarrow> GoogleGenericPass \<Rightarrow> GoogleGenericPass" where
  "setLogo imageUrl description g =
     g\<lparr>passObject := (passObject g)\<lparr>logo := Some (createImageObject imageUrl description)\<rparr>\<rparr>"

definition setHeroImage ::
    "string \<Rightarrow> string option \<Rightarrow> GoogleGenericPass \<Rightarrow> GoogleGenericPass" where
  "setHeroImage imageUrl description g =
     g\<lparr>passObject := (passObject g)
        \<lparr>heroImage := Some (createImageObject imageUrl description)\<rparr>\<rparr>"

definition addImageModule ::
    "string \<Rightarrow> string \<Rightarrow> string option \<Rightarrow> GoogleGenericPass \<Rightarrow> GoogleGenericPass" where
  "addImageModule i imageUrl description g =
     g\<lparr>passObject := (passObject g)
        \<lparr>imageModulesData :=
           Some (initialized (imageModulesData (passObject g)) @
                 [\<lparr>id_im = i, mainImage = createImageObject imageUrl description\<rparr>])\<rparr>\<rparr>"

definition addAdditionalInfo ::
    "string \<Rightarrow> string \<Rightarrow> string \<Rightarrow> GoogleGenericPass \<Rightarrow> GoogleGenericPass" where
  "addAdditionalInfo i l v g =
     g\<lparr>passObject := (passObject g)
        \<lparr>additionalInfo :=
           Some (initialized (additionalInfo (passObject g)) @
                 [\<lparr>id_info = i,
                   labelValue =
                     \<lparr>label = ensureNonEmptyString (Some l) ''Info'',
                      value_lv = ensureNonEmptyString (Some v) ''Value''\<rparr>\<rparr>])\<rparr>\<rparr>"

definition addCustomInfoModule ::
    "string \<Rightarrow> string \<Rightarrow> string \<Rightarrow> GoogleGenericPass \<Rightarrow> GoogleGenericPass" where
  "addCustomInfoModule i l v g =
     g\<lparr>passObject := (passObject g)
        \<lparr>customInfoModules :=
           Some (initialized (customInfoModules (passObject g)) @
                 [\<lparr>id_info = i,
                   labelValue =
                     \<lparr>label = ensureNonEmptyString (Some l) ''Info'',
                      value_lv = ensureNonEmptyString (Some v) ''Value''\<rparr>\<rparr>])\<rparr>\<rparr>"

text \<open>
  The three app link methods differ in the field they assign and in the fallback title.
  \<open>createAppLinkInfo\<close> is the record each of them builds; \<open>initializedAppLinkData\<close> is
  \<open>appLinkData\<close> after the step that stores \<open>{}\<close> where it is \<open>undefined\<close>.
\<close>

definition createAppLinkInfo ::
    "string \<Rightarrow> string \<Rightarrow> string \<Rightarrow> string option \<Rightarrow> string option \<Rightarrow> string option
       \<Rightarrow> AppLinkInfo" where
  "createAppLinkInfo fallback t target description logoImageUrl logoDescription =
     \<lparr>appLogoImage = whenTruthy logoImageUrl (\<lambda>u. createImageObject u logoDescription),
      title = ensureNonEmptyString (Some t) fallback,
      description_app = description,
      appTarget = \<lparr>targetUri = target\<rparr>\<rparr>"

definition initializedAppLinkData :: "GoogleGenericPassObject \<Rightarrow> AppLinkData" where
  "initializedAppLinkData p =
     (case appLinkData p of
        None \<Rightarrow> \<lparr>androidAppLinkInfo = None, iosAppLinkInfo = None, webAppLinkInfo = None\<rparr>
      | Some d \<Rightarrow> d)"

definition addAndroidAppLink ::
    "string \<Rightarrow> string \<Rightarrow> string option \<Rightarrow> string option \<Rightarrow> string option
       \<Rightarrow> GoogleGenericPass \<Rightarrow> GoogleGenericPass" where
  "addAndroidAppLink t target description logoImageUrl logoDescription g =
     g\<lparr>passObject := (passObject g)
        \<lparr>appLinkData :=
           Some ((initializedAppLinkData (passObject g))
                   \<lparr>androidAppLinkInfo :=
                      Some (createAppLinkInfo ''Android App'' t target description
                              logoImageUrl logoDescription)\<rparr>)\<rparr>\<rparr>"

definition addIosAppLink ::
    "string \<Rightarrow> string \<Rightarrow> string option \<Rightarrow> string option \<Rightarrow> string option
       \<Rightarrow> GoogleGenericPass \<Rightarrow> GoogleGenericPass" where
  "addIosAppLink t target description logoImageUrl logoDescription g =
     g\<lparr>passObject := (passObject g)
        \<lparr>appLinkData :=
           Some ((initializedAppLinkData (passObject g))
                   \<lparr>iosAppLinkInfo :=
                      Some (createAppLinkInfo ''iOS App'' t target description
                              logoImageUrl logoDescription)\<rparr>)\<rparr>\<rparr>"

definition addWebAppLink ::
    "string \<Rightarrow> string \<Rightarrow> string option \<Rightarrow> string option \<Rightarrow> string option
       \<Rightarrow> GoogleGenericPass \<Rightarrow> GoogleGenericPass" where
  "addWebAppLink t target description logoImageUrl logoDescription g =
     g\<lparr>passObject := (passObject g)
        \<lparr>appLinkData :=
           Some ((initializedAppLinkData (passObject g))
                   \<lparr>webAppLinkInfo :=
                      Some (createAppLinkInfo ''Web App'' t target description
                              logoImageUrl logoDescription)\<rparr>)\<rparr>\<rparr>"

definition setGroupingInfo ::
    "string \<Rightarrow> number option \<Rightarrow> GoogleGenericPass \<Rightarrow> GoogleGenericPass" where
  "setGroupingInfo gid idx g =
     g\<lparr>passObject := (passObject g)
        \<lparr>groupingInfo := Some \<lparr>groupingId = gid, sortIndex = idx\<rparr>\<rparr>\<rparr>"

text \<open>
  \<open>setBarcode\<close> has the default \<open>QR_CODE\<close> for its second parameter, which applies
  when the argument is \<open>undefined\<close>.
\<close>

definition setBarcode ::
    "string \<Rightarrow> string option \<Rightarrow> string option \<Rightarrow> GoogleGenericPass \<Rightarrow> GoogleGenericPass" where
  "setBarcode v t alt g =
     g\<lparr>passObject := (passObject g)
        \<lparr>barcode :=
           Some \<lparr>type_bc = (case t of None \<Rightarrow> ''QR_CODE'' | Some t' \<Rightarrow> t'),
                 value_bc = v,
                 alternateText = Some (orElse alt [])\<rparr>\<rparr>\<rparr>"

text \<open>
  \<open>ensureLinkDescription\<close> is the arrow function that \<open>addLinks\<close> and the validation
  pass both map over the links.
\<close>

definition ensureLinkDescription :: "LinkUri \<Rightarrow> LinkUri" where
  "ensureLinkDescription link =
     link\<lparr>description_link :=
            ensureNonEmptyString (Some (description_link link)) (''Link '' @ id_link link)\<rparr>"

definition addLinks :: "LinkUri list \<Rightarrow> GoogleGenericPass \<Rightarrow> GoogleGenericPass" where
  "addLinks links g =
     g\<lparr>passObject := (passObject g)
        \<lparr>linksModuleData := Some \<lparr>uris = map ensureLinkDescription links\<rparr>\<rparr>\<rparr>"

definition addLocations :: "LatLongPoint list \<Rightarrow> GoogleGenericPass \<Rightarrow> GoogleGenericPass" where
  "addLocations ls g = g\<lparr>passObject := (passObject g)\<lparr>locations := Some ls\<rparr>\<rparr>"

definition setValidTimeInterval ::
    "string \<Rightarrow> string option \<Rightarrow> GoogleGenericPass \<Rightarrow> GoogleGenericPass" where
  "setValidTimeInterval s e g =
     g\<lparr>passObject := (passObject g)
        \<lparr>validTimeInterval :=
           Some \<lparr>start = \<lparr>date = s\<rparr>, end_ti = whenTruthy e (\<lambda>d. \<lparr>date = d\<rparr>)\<rparr>\<rparr>\<rparr>"


section \<open>The validation pass\<close>

text \<open>
  \<open>validatePassObject\<close> is a sequence of guarded statements
  \<open>if (x.f) { x.f = ... x.f ... }\<close>: an absent field stays as it is, a present one is
  rewritten from its own value. On an optional field that is \<open>map_option\<close>. The
  definitions before it are the rewritings the statements apply: the assignment to
  \<open>defaultValue.value\<close>, the same under the guard
  \<open>image?.contentDescription?.defaultValue\<close>, and the arrow functions mapped over the
  arrays.
\<close>

definition ensureDefaultValue :: "string \<Rightarrow> LocalizedObject \<Rightarrow> LocalizedObject" where
  "ensureDefaultValue fallback t =
     t\<lparr>defaultValue := (defaultValue t)
         \<lparr>value_dv := ensureNonEmptyString (Some (value_dv (defaultValue t))) fallback\<rparr>\<rparr>"

definition ensureContentDescription :: "string \<Rightarrow> ImageObject \<Rightarrow> ImageObject" where
  "ensureContentDescription fallback img =
     img\<lparr>contentDescription :=
           map_option (ensureDefaultValue fallback) (contentDescription img)\<rparr>"

definition ensureTextModule :: "TextModuleObject \<Rightarrow> TextModuleObject" where
  "ensureTextModule m =
     m\<lparr>body := ensureNonEmptyString (Some (body m)) (''Info '' @ id_tm m),
       header_tm :=
         (if truthy (header_tm m)
          then Some (ensureNonEmptyString (header_tm m) (''Section '' @ id_tm m))
          else None)\<rparr>"

definition ensureInfoModule :: "InfoModuleData \<Rightarrow> InfoModuleData" where
  "ensureInfoModule m =
     m\<lparr>labelValue :=
         \<lparr>label = ensureNonEmptyString (Some (label (labelValue m))) (''Label '' @ id_info m),
          value_lv =
            ensureNonEmptyString (Some (value_lv (labelValue m))) (''Value '' @ id_info m)\<rparr>\<rparr>"

definition ensureImageModule :: "ImageModuleObject \<Rightarrow> ImageModuleObject" where
  "ensureImageModule m =
     m\<lparr>mainImage := ensureContentDescription (''Image '' @ id_im m) (mainImage m)\<rparr>"

definition ensureAlternateText :: "BarcodeObject \<Rightarrow> BarcodeObject" where
  "ensureAlternateText b =
     (if truthy (alternateText b)
      then b\<lparr>alternateText := Some (ensureNonEmptyString (alternateText b) ''Scan this code'')\<rparr>
      else b)"

definition ensureAppLinkInfo :: "string \<Rightarrow> string \<Rightarrow> AppLinkInfo \<Rightarrow> AppLinkInfo" where
  "ensureAppLinkInfo titleFallback logoFallback info =
     info\<lparr>title := ensureNonEmptyString (Some (title info)) titleFallback,
          appLogoImage := map_option (ensureContentDescription logoFallback) (appLogoImage info)\<rparr>"

definition ensureAppLinkData :: "AppLinkData \<Rightarrow> AppLinkData" where
  "ensureAppLinkData d =
     d\<lparr>androidAppLinkInfo :=
         map_option (ensureAppLinkInfo ''Android App'' ''Android App Logo'') (androidAppLinkInfo d),
       iosAppLinkInfo :=
         map_option (ensureAppLinkInfo ''iOS App'' ''iOS App Logo'') (iosAppLinkInfo d),
       webAppLinkInfo :=
         map_option (ensureAppLinkInfo ''Web App'' ''Web App Logo'') (webAppLinkInfo d)\<rparr>"

definition validatePassObject :: "GoogleGenericPass \<Rightarrow> GoogleGenericPass" where
  "validatePassObject g =
     (let p = passObject g;
          p = p\<lparr>cardTitle := map_option (ensureDefaultValue ''Card'') (cardTitle p)\<rparr>;
          p = p\<lparr>header := map_option (ensureDefaultValue ''Header'') (header p)\<rparr>;
          p = p\<lparr>subheader := map_option (ensureDefaultValue ''Subheader'') (subheader p)\<rparr>;
          p = p\<lparr>textModulesData := map_option (map ensureTextModule) (textModulesData p)\<rparr>;
          p = p\<lparr>linksModuleData :=
                  map_option (\<lambda>l. l\<lparr>uris := map ensureLinkDescription (uris l)\<rparr>)
                    (linksModuleData p)\<rparr>;
          p = p\<lparr>customInfoModules := map_option (map ensureInfoModule) (customInfoModules p)\<rparr>;
          p = p\<lparr>additionalInfo := map_option (map ensureInfoModule) (additionalInfo p)\<rparr>;
          p = p\<lparr>logo := map_option (ensureContentDescription ''Logo'') (logo p)\<rparr>;
          p = p\<lparr>heroImage := map_option (ensureContentDescription ''Hero Image'') (heroImage p)\<rparr>;
          p = p\<lparr>imageModulesData := map_option (map ensureImageModule) (imageModulesData p)\<rparr>;
          p = p\<lparr>barcode := map_option ensureAlternateText (barcode p)\<rparr>;
          p = p\<lparr>appLinkData := map_option ensureAppLinkData (appLinkData p)\<rparr>
      in g\<lparr>passObject := p\<rparr>)"


section \<open>Token generation\<close>

text \<open>
  \<open>generateJwt\<close> throws when the credentials are not set; otherwise it runs the validation
  pass, repairs the issuer name of the pass class, and signs the payload. The signing
  function of the \<open>jsonwebtoken\<close> package and the clock are outside the module:
  \<open>sign\<close> and \<open>now\<close> (the value of \<open>Math.floor(Date.now() / 1000)\<close>) are parameters.
  The result is the thrown error or the token, and the state of the instance when the
  call ends.
\<close>

record JwtPayloadBody =
  genericObjects :: "GoogleGenericPassObject list"
  genericClasses :: "GoogleGenericPassClass list option"

record JwtPayload =
  iss :: string
  aud :: string
  typ_jwt :: string
  iat :: number
  origins :: "string list"
  payload :: JwtPayloadBody

definition generateJwt ::
    "(JwtPayload \<Rightarrow> string \<Rightarrow> string) \<Rightarrow> number \<Rightarrow> string list option \<Rightarrow> GoogleGenericPass
       \<Rightarrow> (error + string) \<times> GoogleGenericPass" where
  "generateJwt sign now allowedOrigins g =
     (case (serviceAccountEmail g, privateKey g) of
        (Some email, Some key) \<Rightarrow>
          if email = [] \<or> key = []
          then (Inl (Error ''Service account credentials not set''), g)
          else
            (let g = validatePassObject g;
                 g = g\<lparr>passClass :=
                        map_option
                          (\<lambda>c. c\<lparr>issuerName :=
                                   ensureNonEmptyString (Some (issuerName c)) ''Issuer''\<rparr>)
                          (passClass g)\<rparr>
             in (Inr (sign
                        \<lparr>iss = email, aud = ''google'', typ_jwt = ''savetowallet'', iat = now,
                         origins = (case allowedOrigins of None \<Rightarrow> [] | Some os \<Rightarrow> os),
                         payload =
                           \<lparr>genericObjects = [passObject g],
                            genericClasses = map_option (\<lambda>c. [c]) (passClass g)\<rparr>\<rparr>
                        key),
                 g))
      | _ \<Rightarrow> (Inl (Error ''Service account credentials not set''), g))"

definition generateAddToWalletLink ::
    "(JwtPayload \<Rightarrow> string \<Rightarrow> string) \<Rightarrow> number \<Rightarrow> string list option \<Rightarrow> GoogleGenericPass
       \<Rightarrow> (error + string) \<times> GoogleGenericPass" where
  "generateAddToWalletLink sign now allowedOrigins g =
     (case generateJwt sign now allowedOrigins g of
        (Inl e, g') \<Rightarrow> (Inl e, g')
      | (Inr token, g') \<Rightarrow> (Inr (''https://pay.google.com/gp/v/save/'' @ token), g'))"


section \<open>Absent fields\<close>

text \<open>
  \<open>staysAbsent before after\<close> says of an optional field, read before and after a call, that
  the call has not introduced it. On optional and array-valued fields that hold records
  with optional fields of their own, \<open>rel_option\<close> and \<open>list_all2\<close> carry the statement
  to the fields inside: \<open>rel_option R before after\<close> holds when both are absent, or both
  are present with contents related by \<open>R\<close>.
\<close>

abbreviation staysAbsent :: "'a option \<Rightarrow> 'b option \<Rightarrow> bool" where
  "staysAbsent before after \<equiv> (before = None \<longrightarrow> after = None)"

abbreviation imageStaysAbsent :: "ImageObject option \<Rightarrow> ImageObject option \<Rightarrow> bool" where
  "imageStaysAbsent before after \<equiv>
     rel_option (\<lambda>i j. staysAbsent (contentDescription i) (contentDescription j)) before after"

abbreviation appLinkStaysAbsent :: "AppLinkInfo option \<Rightarrow> AppLinkInfo option \<Rightarrow> bool" where
  "appLinkStaysAbsent before after \<equiv>
     rel_option
       (\<lambda>a b. staysAbsent (description_app a) (description_app b)
          \<and> imageStaysAbsent (appLogoImage a) (appLogoImage b))
       before after"


section \<open>Facts about the string helpers\<close>

lemma dropWhile_all_Nil: "(\<forall>x\<in>set (dropWhile P xs). P x) \<longleftrightarrow> dropWhile P xs = []"
  using hd_dropWhile [of P xs] by (cases "dropWhile P xs") (auto dest: set_dropWhileD)

text \<open>\<open>trim\<close> gives the empty string exactly on the strings of white space.\<close>

lemma trim_Nil_iff: "trim s = [] \<longleftrightarrow> (\<forall>c\<in>set s. isWhiteSpace c)"
  by (simp add: trim_def dropWhile_all_Nil)

lemma truthy_None: "\<not> truthy None"
  by (simp add: truthy_def)

lemma truthy_Some: "truthy (Some s) \<longleftrightarrow> s \<noteq> []"
  by (simp add: truthy_def)

lemma ensureNonEmptyString_blank:
  "\<forall>c\<in>set s. isWhiteSpace c \<Longrightarrow> ensureNonEmptyString (Some s) fallback = fallback"
  by (simp add: ensureNonEmptyString_def trim_Nil_iff)

lemma ensureNonEmptyString_kept:
  "\<not> isWhiteSpace c \<Longrightarrow> c \<in> set s \<Longrightarrow> ensureNonEmptyString (Some s) fallback = s"
  by (auto simp add: ensureNonEmptyString_def trim_Nil_iff)

lemma ensureNonEmptyString_head:
  "\<not> isWhiteSpace c \<Longrightarrow> ensureNonEmptyString (Some (c # s)) fallback = c # s"
  by (simp add: ensureNonEmptyString_kept [of c])

lemma ensureNonEmptyString_cases:
  "ensureNonEmptyString v fallback = fallback
   \<or> (\<exists>s c. v = Some s \<and> c \<in> set s \<and> \<not> isWhiteSpace c
         \<and> ensureNonEmptyString v fallback = s)"
  by (auto simp add: ensureNonEmptyString_def trim_Nil_iff split: option.splits)

text \<open>
  A fallback that starts with a character other than white space is a fixed point, which
  makes \<open>ensureNonEmptyString\<close> with such a fallback idempotent. Every fallback of the
  module starts with a letter.
\<close>

lemma ensureNonEmptyString_idem:
  assumes "\<not> isWhiteSpace c"
  shows "ensureNonEmptyString (Some (ensureNonEmptyString v (c # fb))) (c # fb)
           = ensureNonEmptyString v (c # fb)"
  using ensureNonEmptyString_cases [of v "c # fb"] assms
  by (auto simp: ensureNonEmptyString_head ensureNonEmptyString_kept)

lemma ensureNonEmptyString_truthy: "truthy (Some (ensureNonEmptyString v (c # fb)))"
  using ensureNonEmptyString_cases [of v "c # fb"] by (auto simp: truthy_def)

lemma letters:
  "\<not> isWhiteSpace CHR ''C''" "\<not> isWhiteSpace CHR ''H''" "\<not> isWhiteSpace CHR ''S''"
  "\<not> isWhiteSpace CHR ''I''" "\<not> isWhiteSpace CHR ''L''" "\<not> isWhiteSpace CHR ''V''"
  "\<not> isWhiteSpace CHR ''A''" "\<not> isWhiteSpace CHR ''i''" "\<not> isWhiteSpace CHR ''W''"
  by (simp_all add: isWhiteSpace_def)


section \<open>The rewritings of the validation pass are idempotent\<close>

lemma ensureDefaultValue_idem:
  "\<not> isWhiteSpace c \<Longrightarrow>
     ensureDefaultValue (c # fb) (ensureDefaultValue (c # fb) t) = ensureDefaultValue (c # fb) t"
  by (simp add: ensureDefaultValue_def ensureNonEmptyString_idem)

lemma ensureContentDescription_idem:
  "\<not> isWhiteSpace c \<Longrightarrow>
     ensureContentDescription (c # fb) (ensureContentDescription (c # fb) img)
       = ensureContentDescription (c # fb) img"
  by (simp add: ensureContentDescription_def option.map_comp comp_def ensureDefaultValue_idem)

lemma ensureTextModule_idem: "ensureTextModule (ensureTextModule m) = ensureTextModule m"
  by (simp add: ensureTextModule_def ensureNonEmptyString_idem ensureNonEmptyString_truthy
      truthy_None letters)

lemma ensureLinkDescription_idem:
  "ensureLinkDescription (ensureLinkDescription l) = ensureLinkDescription l"
  by (simp add: ensureLinkDescription_def ensureNonEmptyString_idem letters)

lemma ensureInfoModule_idem: "ensureInfoModule (ensureInfoModule m) = ensureInfoModule m"
  by (simp add: ensureInfoModule_def ensureNonEmptyString_idem letters)

lemma ensureImageModule_idem: "ensureImageModule (ensureImageModule m) = ensureImageModule m"
  by (simp add: ensureImageModule_def ensureContentDescription_idem letters)

lemma ensureAlternateText_idem:
  "ensureAlternateText (ensureAlternateText b) = ensureAlternateText b"
  by (simp add: ensureAlternateText_def ensureNonEmptyString_idem ensureNonEmptyString_truthy
      truthy_None letters)

lemma ensureAppLinkInfo_idem:
  "\<not> isWhiteSpace c \<Longrightarrow> \<not> isWhiteSpace d \<Longrightarrow>
     ensureAppLinkInfo (c # t) (d # l) (ensureAppLinkInfo (c # t) (d # l) info)
       = ensureAppLinkInfo (c # t) (d # l) info"
  by (simp add: ensureAppLinkInfo_def ensureNonEmptyString_idem option.map_comp comp_def
      ensureContentDescription_idem)

lemma ensureAppLinkData_idem: "ensureAppLinkData (ensureAppLinkData d) = ensureAppLinkData d"
  by (simp add: ensureAppLinkData_def option.map_comp comp_def ensureAppLinkInfo_idem letters)


section \<open>The validation pass, field by field\<close>

text \<open>
  Each statement of \<open>validatePassObject\<close> reads and writes one field, so the pass is one
  update of the pass object with every field computed from its value before the pass.
\<close>

lemma validatePassObject_fields:
  "validatePassObject g =
     g\<lparr>passObject := (passObject g)
        \<lparr>cardTitle := map_option (ensureDefaultValue ''Card'') (cardTitle (passObject g)),
         header := map_option (ensureDefaultValue ''Header'') (header (passObject g)),
         subheader := map_option (ensureDefaultValue ''Subheader'') (subheader (passObject g)),
         textModulesData := map_option (map ensureTextModule) (textModulesData (passObject g)),
         linksModuleData :=
           map_option (\<lambda>l. l\<lparr>uris := map ensureLinkDescription (uris l)\<rparr>)
             (linksModuleData (passObject g)),
         customInfoModules :=
           map_option (map ensureInfoModule) (customInfoModules (passObject g)),
         additionalInfo := map_option (map ensureInfoModule) (additionalInfo (passObject g)),
         logo := map_option (ensureContentDescription ''Logo'') (logo (passObject g)),
         heroImage :=
           map_option (ensureContentDescription ''Hero Image'') (heroImage (passObject g)),
         imageModulesData :=
           map_option (map ensureImageModule) (imageModulesData (passObject g)),
         barcode := map_option ensureAlternateText (barcode (passObject g)),
         appLinkData := map_option ensureAppLinkData (appLinkData (passObject g))\<rparr>\<rparr>"
  by (simp add: validatePassObject_def Let_def)


text \<open>
  With credentials set, the pass object that \<open>generateJwt\<close> signs and leaves in the
  instance is the pass object after \<open>validatePassObject\<close>.
\<close>

lemma generateJwt_passObject:
  assumes "serviceAccountEmail g = Some email" and "privateKey g = Some key"
    and "email \<noteq> []" and "key \<noteq> []"
  shows "passObject (snd (generateJwt sign now allowedOrigins g))
           = passObject (validatePassObject g)"
  using assms by (simp add: generateJwt_def Let_def)


section \<open>The rewritings of the validation pass introduce no field\<close>

lemma rel_option_map_option: "(\<And>x. R x (f x)) \<Longrightarrow> rel_option R v (map_option f v)"
  by (cases v) simp_all

lemma list_all2_map_right: "(\<And>x. R x (f x)) \<Longrightarrow> list_all2 R xs (map f xs)"
  by (simp add: list_all2_map2 list_all2_same)

lemma ensureContentDescription_absent:
  "staysAbsent (contentDescription i) (contentDescription (ensureContentDescription fb i))"
  by (simp add: ensureContentDescription_def)

lemma ensureTextModule_absent: "staysAbsent (header_tm m) (header_tm (ensureTextModule m))"
  by (simp add: ensureTextModule_def truthy_None)

lemma ensureAlternateText_absent:
  "staysAbsent (alternateText b) (alternateText (ensureAlternateText b))"
  by (simp add: ensureAlternateText_def truthy_None)

lemma ensureAppLinkInfo_absent:
  "staysAbsent (description_app a) (description_app (ensureAppLinkInfo tf lf a))
   \<and> imageStaysAbsent (appLogoImage a) (appLogoImage (ensureAppLinkInfo tf lf a))"
  by (simp add: ensureAppLinkInfo_def rel_option_map_option ensureContentDescription_absent)


section \<open>Blank display strings\<close>

text \<open>
  C1. A display string that a setter receives empty or made of white space only holds a
  fallback literal after the validation pass, never the empty string. The literal is the
  one of the setter that stored the field: \<open>Card\<close> for the card title, \<open>Header\<close> for the
  header, \<open>Subheader\<close> for a subheader given as a non-empty string of white space,
  \<open>Information\<close> for the body of a text module, \<open>Link\<close> followed by the link's id for a
  link description, \<open>Info\<close> and \<open>Value\<close> for the label and the value of an info module
  (custom or additional). The field of a module is read from the last module of its
  array, the one the call has pushed.
\<close>

theorem blank_display_string_fallbacks:
  assumes blank: "\<forall>c\<in>set s. isWhiteSpace c"
  shows
    "map_option (value_dv \<circ> defaultValue)
       (cardTitle (passObject (validatePassObject (setCardTitle s g)))) = Some ''Card''
     \<and> map_option (value_dv \<circ> defaultValue)
         (header (passObject (validatePassObject (setHeaderInfo s sub g)))) = Some ''Header''
     \<and> (s \<noteq> [] \<longrightarrow>
          map_option (value_dv \<circ> defaultValue)
            (subheader (passObject (validatePassObject (setHeaderInfo h (Some s) g))))
          = Some ''Subheader'')
     \<and> map_option (body \<circ> last)
         (textModulesData (passObject (validatePassObject (addTextModule i s th g))))
        = Some ''Information''
     \<and> map_option (\<lambda>l. description_link (uris l ! length before))
         (linksModuleData (passObject (validatePassObject
            (addLinks (before @ \<lparr>uri_link = u, description_link = s, id_link = i\<rparr> # after) g))))
        = Some (''Link '' @ i)
     \<and> map_option (label \<circ> labelValue \<circ> last)
         (customInfoModules (passObject (validatePassObject (addCustomInfoModule i s v g))))
        = Some ''Info''
     \<and> map_option (value_lv \<circ> labelValue \<circ> last)
         (customInfoModules (passObject (validatePassObject (addCustomInfoModule i l s g))))
        = Some ''Value''
     \<and> map_option (label \<circ> labelValue \<circ> last)
         (additionalInfo (passObject (validatePassObject (addAdditionalInfo i s v g))))
        = Some ''Info''
     \<and> map_option (value_lv \<circ> labelValue \<circ> last)
         (additionalInfo (passObject (validatePassObject (addAdditionalInfo i l s g))))
        = Some ''Value''"
proof -
  note ensure = ensureNonEmptyString_blank [OF blank] ensureNonEmptyString_head letters
  have c_title: "map_option (value_dv \<circ> defaultValue)
       (cardTitle (passObject (validatePassObject (setCardTitle s g)))) = Some ''Card''"
    by (simp add: validatePassObject_fields setCardTitle_def ensureDefaultValue_def ensure)
  have c_header: "map_option (value_dv \<circ> defaultValue)
         (header (passObject (validatePassObject (setHeaderInfo s sub g)))) = Some ''Header''"
    by (simp add: validatePassObject_fields setHeaderInfo_def Let_def ensureDefaultValue_def
        ensure)
  have c_sub: "map_option (value_dv \<circ> defaultValue)
            (subheader (passObject (validatePassObject (setHeaderInfo h (Some s) g))))
          = Some ''Subheader''" if "s \<noteq> []"
    using that
    by (simp add: validatePassObject_fields setHeaderInfo_def Let_def ensureDefaultValue_def
        truthy_Some ensure)
  have c_body: "map_option (body \<circ> last)
         (textModulesData (passObject (validatePassObject (addTextModule i s th g))))
        = Some ''Information''"
    by (simp add: validatePassObject_fields addTextModule_def ensureTextModule_def ensure)
  have c_link: "map_option (\<lambda>l. description_link (uris l ! length before))
         (linksModuleData (passObject (validatePassObject
            (addLinks (before @ \<lparr>uri_link = u, description_link = s, id_link = i\<rparr> # after) g))))
        = Some (''Link '' @ i)"
    by (simp add: validatePassObject_fields addLinks_def ensureLinkDescription_def nth_append
        ensure)
  have c_info:
    "map_option (label \<circ> labelValue \<circ> last)
         (customInfoModules (passObject (validatePassObject (addCustomInfoModule i s v g))))
        = Some ''Info''"
    "map_option (value_lv \<circ> labelValue \<circ> last)
         (customInfoModules (passObject (validatePassObject (addCustomInfoModule i l s g))))
        = Some ''Value''"
    by (simp_all add: validatePassObject_fields addCustomInfoModule_def ensureInfoModule_def
        ensure)
  have c_additional:
    "map_option (label \<circ> labelValue \<circ> last)
         (additionalInfo (passObject (validatePassObject (addAdditionalInfo i s v g))))
        = Some ''Info''"
    "map_option (value_lv \<circ> labelValue \<circ> last)
         (additionalInfo (passObject (validatePassObject (addAdditionalInfo i l s g))))
        = Some ''Value''"
    by (simp_all add: validatePassObject_fields addAdditionalInfo_def ensureInfoModule_def
        ensure)
  from c_title c_header c_sub c_body c_link c_info c_additional show ?thesis by blast
qed

text \<open>
  The theorem at the string of two spaces, on a new pass: the card title, the subheader
  and the label and value of a custom info module.
\<close>

theorem blank_display_string_fallbacks_witness:
  "list_all isWhiteSpace ''  ''
   \<and> map_option (value_dv \<circ> defaultValue)
       (cardTitle (passObject (validatePassObject
          (setCardTitle ''  '' (constructor ''test-issuer'' ''test-pass'' ''test-class'')))))
      = Some ''Card''
   \<and> map_option (value_dv \<circ> defaultValue)
       (subheader (passObject (validatePassObject
          (setHeaderInfo ''Main Header'' (Some ''  '')
             (constructor ''test-issuer'' ''test-pass'' ''test-class'')))))
      = Some ''Subheader''
   \<and> map_option (label \<circ> labelValue \<circ> last)
       (customInfoModules (passObject (validatePassObject
          (addCustomInfoModule ''m'' ''  '' ''100''
             (constructor ''test-issuer'' ''test-pass'' ''test-class'')))))
      = Some ''Info''
   \<and> map_option (value_lv \<circ> labelValue \<circ> last)
       (customInfoModules (passObject (validatePassObject
          (addCustomInfoModule ''m'' ''Points'' ''  ''
             (constructor ''test-issuer'' ''test-pass'' ''test-class'')))))
      = Some ''Value''"
proof -
  have blank: "\<forall>c\<in>set ''  ''. isWhiteSpace c"
    by (simp add: isWhiteSpace_def)
  have "''  '' \<noteq> []"
    by simp
  with blank show ?thesis
    using blank_display_string_fallbacks [OF blank,
        where g = "constructor ''test-issuer'' ''test-pass'' ''test-class''"
          and h = "''Main Header''" and i = "''m''" and v = "''100''" and l = "''Points''"]
    by (simp add: list_all_iff)
qed

text \<open>
  The literal is not always the one the validation pass itself substitutes. The pass
  rewrites an empty label and value of module \<open>m\<close> to \<open>Label m\<close> and \<open>Value m\<close>; given to
  \<open>addCustomInfoModule\<close>, the same empty strings are \<open>Info\<close> and \<open>Value\<close> after the pass.
\<close>

theorem blank_info_label_counterexample:
  "ensureInfoModule \<lparr>id_info = ''m'', labelValue = \<lparr>label = [], value_lv = []\<rparr>\<rparr>
     = \<lparr>id_info = ''m'', labelValue = \<lparr>label = ''Label m'', value_lv = ''Value m''\<rparr>\<rparr>
   \<and> customInfoModules (passObject (validatePassObject
        (addCustomInfoModule ''m'' [] [] (constructor ''test-issuer'' ''test-pass'' ''test-class''))))
     = Some [\<lparr>id_info = ''m'', labelValue = \<lparr>label = ''Info'', value_lv = ''Value''\<rparr>\<rparr>]
   \<and> customInfoModules (passObject (validatePassObject
        (addCustomInfoModule ''m'' [] [] (constructor ''test-issuer'' ''test-pass'' ''test-class''))))
     \<noteq> Some [\<lparr>id_info = ''m'', labelValue = \<lparr>label = ''Label m'', value_lv = ''Value m''\<rparr>\<rparr>]"
  by (simp add: validatePassObject_fields addCustomInfoModule_def constructor_def
      initialized_def ensureInfoModule_def ensureNonEmptyString_blank ensureNonEmptyString_head
      letters)


section \<open>The validation pass is idempotent\<close>

text \<open>
  C2. For every state of the builder, running \<open>validatePassObject\<close> twice in succession
  leaves the instance in the state that running it once gives.
\<close>

theorem validatePassObject_idempotent:
  "validatePassObject (validatePassObject g) = validatePassObject g"
  by (simp add: validatePassObject_def Let_def option.map_comp comp_def
      ensureDefaultValue_idem ensureTextModule_idem ensureLinkDescription_idem
      ensureInfoModule_idem ensureContentDescription_idem ensureImageModule_idem
      ensureAlternateText_idem ensureAppLinkData_idem letters)

theorem validatePassObject_idempotent_witness:
  "validatePassObject (validatePassObject
     (setBarcode ''123'' (Some ''QR_CODE'') (Some '' '')
        (addTextModule ''info1'' [] (Some '' '')
           (setHeaderInfo [] (Some [])
              (setCardTitle [] (constructor ''test-issuer'' ''test-pass'' ''test-class''))))))
   = validatePassObject
     (setBarcode ''123'' (Some ''QR_CODE'') (Some '' '')
        (addTextModule ''info1'' [] (Some '' '')
           (setHeaderInfo [] (Some [])
              (setCardTitle [] (constructor ''test-issuer'' ''test-pass'' ''test-class'')))))"
  using validatePassObject_idempotent
    [of "setBarcode ''123'' (Some ''QR_CODE'') (Some '' '')
        (addTextModule ''info1'' [] (Some '' '')
           (setHeaderInfo [] (Some [])
              (setCardTitle [] (constructor ''test-issuer'' ''test-pass'' ''test-class''))))"]
  by simp


section \<open>Insertions into the arrays\<close>

text \<open>
  C3. \<open>addTextModule\<close>, \<open>addImageModule\<close>, \<open>addCustomInfoModule\<close> and \<open>addAdditionalInfo\<close>
  start their array at the first insertion, as the array of the one new entry, and
  append to the array that exists, keeping its entries and their order. \<open>addLinks\<close>
  stores the links of the call, in the order of the call, whatever links the pass had.
  The validation pass keeps the entries of all five arrays in their order.
\<close>

theorem insertions_append_and_addLinks_replaces:
  "(textModulesData (passObject g) = None \<longrightarrow>
      (\<exists>m. textModulesData (passObject (addTextModule i b h g)) = Some [m] \<and> id_tm m = i))
   \<and> (\<forall>ms. textModulesData (passObject g) = Some ms \<longrightarrow>
      (\<exists>m. textModulesData (passObject (addTextModule i b h g)) = Some (ms @ [m]) \<and> id_tm m = i))
   \<and> (imageModulesData (passObject g) = None \<longrightarrow>
      (\<exists>m. imageModulesData (passObject (addImageModule i u d g)) = Some [m] \<and> id_im m = i))
   \<and> (\<forall>ms. imageModulesData (passObject g) = Some ms \<longrightarrow>
      (\<exists>m. imageModulesData (passObject (addImageModule i u d g)) = Some (ms @ [m]) \<and> id_im m = i))
   \<and> (customInfoModules (passObject g) = None \<longrightarrow>
      (\<exists>m. customInfoModules (passObject (addCustomInfoModule i l v g)) = Some [m] \<and> id_info m = i))
   \<and> (\<forall>ms. customInfoModules (passObject g) = Some ms \<longrightarrow>
      (\<exists>m. customInfoModules (passObject (addCustomInfoModule i l v g)) = Some (ms @ [m])
          \<and> id_info m = i))
   \<and> (additionalInfo (passObject g) = None \<longrightarrow>
      (\<exists>m. additionalInfo (passObject (addAdditionalInfo i l v g)) = Some [m] \<and> id_info m = i))
   \<and> (\<forall>ms. additionalInfo (passObject g) = Some ms \<longrightarrow>
      (\<exists>m. additionalInfo (passObject (addAdditionalInfo i l v g)) = Some (ms @ [m])
          \<and> id_info m = i))
   \<and> map_option (map id_link \<circ> uris) (linksModuleData (passObject (addLinks links g)))
        = Some (map id_link links)
   \<and> map_option (map id_tm) (textModulesData (passObject (validatePassObject g)))
        = map_option (map id_tm) (textModulesData (passObject g))
   \<and> map_option (map id_im) (imageModulesData (passObject (validatePassObject g)))
        = map_option (map id_im) (imageModulesData (passObject g))
   \<and> map_option (map id_info) (customInfoModules (passObject (validatePassObject g)))
        = map_option (map id_info) (customInfoModules (passObject g))
   \<and> map_option (map id_info) (additionalInfo (passObject (validatePassObject g)))
        = map_option (map id_info) (additionalInfo (passObject g))
   \<and> map_option (map id_link \<circ> uris) (linksModuleData (passObject (validatePassObject g)))
        = map_option (map id_link \<circ> uris) (linksModuleData (passObject g))"
proof -
  have inserts:
    "textModulesData (passObject g) = None \<longrightarrow>
      (\<exists>m. textModulesData (passObject (addTextModule i b h g)) = Some [m] \<and> id_tm m = i)"
    "\<forall>ms. textModulesData (passObject g) = Some ms \<longrightarrow>
      (\<exists>m. textModulesData (passObject (addTextModule i b h g)) = Some (ms @ [m]) \<and> id_tm m = i)"
    "imageModulesData (passObject g) = None \<longrightarrow>
      (\<exists>m. imageModulesData (passObject (addImageModule i u d g)) = Some [m] \<and> id_im m = i)"
    "\<forall>ms. imageModulesData (passObject g) = Some ms \<longrightarrow>
      (\<exists>m. imageModulesData (passObject (addImageModule i u d g)) = Some (ms @ [m]) \<and> id_im m = i)"
    "customInfoModules (passObject g) = None \<longrightarrow>
      (\<exists>m. customInfoModules (passObject (addCustomInfoModule i l v g)) = Some [m] \<and> id_info m = i)"
    "\<forall>ms. customInfoModules (passObject g) = Some ms \<longrightarrow>
      (\<exists>m. customInfoModules (passObject (addCustomInfoModule i l v g)) = Some (ms @ [m])
          \<and> id_info m = i)"
    "additionalInfo (passObject g) = None \<longrightarrow>
      (\<exists>m. additionalInfo (passObject (addAdditionalInfo i l v g)) = Some [m] \<and> id_info m = i)"
    "\<forall>ms. additionalInfo (passObject g) = Some ms \<longrightarrow>
      (\<exists>m. additionalInfo (passObject (addAdditionalInfo i l v g)) = Some (ms @ [m])
          \<and> id_info m = i)"
    by (simp_all add: addTextModule_def addImageModule_def addCustomInfoModule_def
        addAdditionalInfo_def initialized_def)
  have links: "map_option (map id_link \<circ> uris) (linksModuleData (passObject (addLinks links g)))
        = Some (map id_link links)"
    by (simp add: addLinks_def ensureLinkDescription_def comp_def)
  have order:
    "map_option (map id_tm) (textModulesData (passObject (validatePassObject g)))
        = map_option (map id_tm) (textModulesData (passObject g))"
    "map_option (map id_im) (imageModulesData (passObject (validatePassObject g)))
        = map_option (map id_im) (imageModulesData (passObject g))"
    "map_option (map id_info) (customInfoModules (passObject (validatePassObject g)))
        = map_option (map id_info) (customInfoModules (passObject g))"
    "map_option (map id_info) (additionalInfo (passObject (validatePassObject g)))
        = map_option (map id_info) (additionalInfo (passObject g))"
    "map_option (map id_link \<circ> uris) (linksModuleData (passObject (validatePassObject g)))
        = map_option (map id_link \<circ> uris) (linksModuleData (passObject g))"
    by (simp_all add: validatePassObject_fields option.map_comp comp_def ensureTextModule_def
        ensureImageModule_def ensureInfoModule_def ensureLinkDescription_def)
  from inserts links order show ?thesis by blast
qed

text \<open>
  The theorem on a new pass, which has no text modules and one additional info entry:
  the first text module starts the array, and a new additional info entry follows the
  seeded one.
\<close>

theorem insertions_append_and_addLinks_replaces_witness:
  "textModulesData (passObject (constructor ''test-issuer'' ''test-pass'' ''test-class'')) = None
   \<and> map_option (map id_tm)
       (textModulesData (passObject (addTextModule ''info1'' ''This is some info'' None
          (constructor ''test-issuer'' ''test-pass'' ''test-class'')))) = Some [''info1'']
   \<and> map_option (map id_info)
       (additionalInfo (passObject (addAdditionalInfo ''info1'' ''Points'' ''100''
          (constructor ''test-issuer'' ''test-pass'' ''test-class''))))
      = Some [''default_info'', ''info1'']"
proof -
  let ?g = "constructor ''test-issuer'' ''test-pass'' ''test-class''"
  have none: "textModulesData (passObject ?g) = None"
    and one: "additionalInfo (passObject ?g) =
      Some [\<lparr>id_info = ''default_info'',
             labelValue = \<lparr>label = ''Info'', value_lv = ''See details''\<rparr>\<rparr>]"
    by (simp_all add: constructor_def)
  from insertions_append_and_addLinks_replaces
    [where g = ?g and i = "''info1''" and b = "''This is some info''" and h = None
       and l = "''Points''" and v = "''100''"]
  have "\<exists>m. textModulesData (passObject (addTextModule ''info1'' ''This is some info'' None ?g))
            = Some [m] \<and> id_tm m = ''info1''"
    and "\<exists>m. additionalInfo (passObject (addAdditionalInfo ''info1'' ''Points'' ''100'' ?g))
            = Some ([\<lparr>id_info = ''default_info'',
                       labelValue = \<lparr>label = ''Info'', value_lv = ''See details''\<rparr>\<rparr>] @ [m])
          \<and> id_info m = ''info1''"
    using none one by blast+
  with none show ?thesis
    by auto
qed

text \<open>
  A second \<open>addLinks\<close> does not keep the links of the first: after the link \<open>website\<close> and
  then the link \<open>support\<close>, the pass holds the link \<open>support\<close> alone.
\<close>

theorem addLinks_replaces_counterexample:
  "linksModuleData (passObject
      (addLinks [\<lparr>uri_link = ''https://example.com/support'',
                  description_link = ''Contact support'', id_link = ''support''\<rparr>]
        (addLinks [\<lparr>uri_link = ''https://example.com'',
                    description_link = ''Visit our website'', id_link = ''website''\<rparr>]
           (constructor ''test-issuer'' ''test-pass'' ''test-class''))))
   = Some \<lparr>uris = [\<lparr>uri_link = ''https://example.com/support'',
                     description_link = ''Contact support'', id_link = ''support''\<rparr>]\<rparr>"
  by (simp add: addLinks_def ensureLinkDescription_def ensureNonEmptyString_head letters)


section \<open>The barcode's alternate text\<close>

text \<open>
  C4. For every barcode value and type, \<open>setBarcode\<close> without an alternate text stores
  the empty string as \<open>alternateText\<close>, and the validation pass leaves it empty. With
  any third argument, the \<open>alternateText\<close> of the barcode is a string, before and after
  the pass.
\<close>

theorem setBarcode_alternateText_omitted:
  "barcode (passObject (setBarcode v t None g)) =
     Some \<lparr>type_bc = (case t of None \<Rightarrow> ''QR_CODE'' | Some t' \<Rightarrow> t'), value_bc = v,
           alternateText = Some []\<rparr>
   \<and> barcode (passObject (validatePassObject (setBarcode v t None g))) =
     Some \<lparr>type_bc = (case t of None \<Rightarrow> ''QR_CODE'' | Some t' \<Rightarrow> t'), value_bc = v,
           alternateText = Some []\<rparr>
   \<and> (\<exists>a. map_option alternateText (barcode (passObject (setBarcode v t alt g))) = Some (Some a))
   \<and> (\<exists>a. map_option alternateText
              (barcode (passObject (validatePassObject (setBarcode v t alt g)))) = Some (Some a))"
  by (simp add: validatePassObject_fields setBarcode_def ensureAlternateText_def orElse_def
      truthy_def)

theorem setBarcode_alternateText_omitted_witness:
  "barcode (passObject (validatePassObject
      (setBarcode ''123'' (Some ''QR_CODE'') None
         (setCardTitle [] (setPassClass ''Acme'' (constructor ''3388'' ''p1'' ''c1''))))))
   = Some \<lparr>type_bc = ''QR_CODE'', value_bc = ''123'', alternateText = Some []\<rparr>"
  using setBarcode_alternateText_omitted
    [of "''123''" "Some ''QR_CODE''"
       "setCardTitle [] (setPassClass ''Acme'' (constructor ''3388'' ''p1'' ''c1''))"]
  by simp


section \<open>Template info without a pass class\<close>

text \<open>
  C5. In a state with no pass class, \<open>setClassTemplateInfo\<close> throws the error with the
  message \<open>Pass class must be created before adding template info\<close>, and the state of
  the builder after the call is the state before it.
\<close>

theorem setClassTemplateInfo_without_class:
  "passClass g = None \<Longrightarrow>
     setClassTemplateInfo cardRowTemplates g =
       (Some (Error ''Pass class must be created before adding template info''), g)"
  by (simp add: setClassTemplateInfo_def)

theorem setClassTemplateInfo_without_class_witness:
  "passClass (constructor ''test-issuer'' ''test-pass'' ''test-class'') = None
   \<and> setClassTemplateInfo
        [createTwoItemsRow (Some ''object.header'') (Some ''object.barcode'')]
        (constructor ''test-issuer'' ''test-pass'' ''test-class'') =
       (Some (Error ''Pass class must be created before adding template info''),
        constructor ''test-issuer'' ''test-pass'' ''test-class'')"
proof -
  have absent: "passClass (constructor ''test-issuer'' ''test-pass'' ''test-class'') = None"
    by (simp add: constructor_def)
  show ?thesis
    using absent setClassTemplateInfo_without_class [OF absent] by simp
qed


section \<open>The constructor's results\<close>

text \<open>
  C6. For all \<open>issuerId\<close>, \<open>passId\<close> and \<open>classId\<close>, the new pass object has the id
  \<open>issuerId.passId\<close> and the class reference \<open>issuerId.classId\<close>.
\<close>

theorem constructor_ids:
  "id_obj (passObject (constructor issuerId passId cid)) = issuerId @ ''.'' @ passId
   \<and> classId (passObject (constructor issuerId passId cid)) = issuerId @ ''.'' @ cid"
  by (simp add: constructor_def)

theorem constructor_ids_witness:
  "id_obj (passObject (constructor ''3388'' ''p1'' ''c1'')) = ''3388.p1''
   \<and> classId (passObject (constructor ''3388'' ''p1'' ''c1'')) = ''3388.c1''"
  using constructor_ids [of "''3388''" "''p1''" "''c1''"] by simp

text \<open>
  C7. For all constructor arguments, the new pass object has exactly one
  \<open>additionalInfo\<close> entry: id \<open>default_info\<close>, label \<open>Info\<close>, value \<open>See details\<close>.
\<close>

theorem constructor_additionalInfo:
  "additionalInfo (passObject (constructor issuerId passId cid)) =
     Some [\<lparr>id_info = ''default_info'',
            labelValue = \<lparr>label = ''Info'', value_lv = ''See details''\<rparr>\<rparr>]"
  by (simp add: constructor_def)

theorem constructor_additionalInfo_witness:
  "map_option length
     (additionalInfo (passObject (constructor ''test-issuer'' ''test-pass'' ''test-class'')))
     = Some 1
   \<and> map_option (map id_info)
       (additionalInfo (passObject (constructor ''test-issuer'' ''test-pass'' ''test-class'')))
     = Some [''default_info'']"
  using constructor_additionalInfo [of "''test-issuer''" "''test-pass''" "''test-class''"]
  by simp


section \<open>Image descriptions\<close>

text \<open>
  C8. Every image that a method stores is the result of \<open>createImageObject\<close>, which
  always has a \<open>contentDescription\<close>: the literal \<open>Image\<close> when the caller gives no
  description, and the caller's description, as it is, when that is a non-empty string.
  The methods are \<open>setLogo\<close>, \<open>setHeroImage\<close>, \<open>addImageModule\<close>, the three app link
  methods and \<open>setPassClassWithDetails\<close>; the last four store an image when the image
  URL they receive is a non-empty string.
\<close>

theorem images_carry_contentDescription:
  assumes "d \<noteq> []" and "url \<noteq> []"
  shows
    "createImageObject u None =
       \<lparr>sourceUri = \<lparr>uri_src = u\<rparr>,
        contentDescription =
          Some \<lparr>defaultValue = \<lparr>language = ''en-US'', value_dv = ''Image''\<rparr>\<rparr>\<rparr>
     \<and> createImageObject u (Some d) =
       \<lparr>sourceUri = \<lparr>uri_src = u\<rparr>,
        contentDescription = Some \<lparr>defaultValue = \<lparr>language = ''en-US'', value_dv = d\<rparr>\<rparr>\<rparr>
     \<and> (\<exists>t. contentDescription (createImageObject u desc) = Some t)
     \<and> logo (passObject (setLogo u desc g)) = Some (createImageObject u desc)
     \<and> heroImage (passObject (setHeroImage u desc g)) = Some (createImageObject u desc)
     \<and> map_option (mainImage \<circ> last) (imageModulesData (passObject (addImageModule i u desc g)))
         = Some (createImageObject u desc)
     \<and> map_option androidAppLinkInfo
           (appLinkData (passObject (addAndroidAppLink t target ad (Some url) desc g)))
         = Some (Some \<lparr>appLogoImage = Some (createImageObject url desc),
                        title = ensureNonEmptyString (Some t) ''Android App'',
                        description_app = ad, appTarget = \<lparr>targetUri = target\<rparr>\<rparr>)
     \<and> map_option iosAppLinkInfo
           (appLinkData (passObject (addIosAppLink t target ad (Some url) desc g)))
         = Some (Some \<lparr>appLogoImage = Some (createImageObject url desc),
                        title = ensureNonEmptyString (Some t) ''iOS App'',
                        description_app = ad, appTarget = \<lparr>targetUri = target\<rparr>\<rparr>)
     \<and> map_option webAppLinkInfo
           (appLinkData (passObject (addWebAppLink t target ad (Some url) desc g)))
         = Some (Some \<lparr>appLogoImage = Some (createImageObject url desc),
                        title = ensureNonEmptyString (Some t) ''Web App'',
                        description_app = ad, appTarget = \<lparr>targetUri = target\<rparr>\<rparr>)
     \<and> map_option logoImage
           (passClass (setPassClassWithDetails issuer review (Some url) desc heroUrl heroDesc
              color g))
         = Some (Some (createImageObject url desc))
     \<and> map_option heroImage_cls
           (passClass (setPassClassWithDetails issuer review logoUrl logoDesc (Some url) desc
              color g))
         = Some (Some (createImageObject url desc))"
  using assms
  by (simp add: createImageObject_def orElse_def setLogo_def setHeroImage_def addImageModule_def
      addAndroidAppLink_def addIosAppLink_def addWebAppLink_def createAppLinkInfo_def
      whenTruthy_def setPassClassWithDetails_def)

theorem images_carry_contentDescription_witness:
  "logo (passObject (setLogo ''https://example.com/logo.png'' None
      (constructor ''test-issuer'' ''test-pass'' ''test-class''))) =
     Some \<lparr>sourceUri = \<lparr>uri_src = ''https://example.com/logo.png''\<rparr>,
        contentDescription =
          Some \<lparr>defaultValue = \<lparr>language = ''en-US'', value_dv = ''Image''\<rparr>\<rparr>\<rparr>
   \<and> logo (passObject (setLogo ''https://example.com/logo.png'' (Some ''Logo'')
      (constructor ''test-issuer'' ''test-pass'' ''test-class''))) =
     Some \<lparr>sourceUri = \<lparr>uri_src = ''https://example.com/logo.png''\<rparr>,
        contentDescription =
          Some \<lparr>defaultValue = \<lparr>language = ''en-US'', value_dv = ''Logo''\<rparr>\<rparr>\<rparr>"
proof -
  let ?g = "constructor ''test-issuer'' ''test-pass'' ''test-class''"
  have d: "''Logo'' \<noteq> []" and url: "''https://example.com/logo.png'' \<noteq> []"
    by simp_all
  show ?thesis
    using
      images_carry_contentDescription [OF d url,
        where u = "''https://example.com/logo.png''" and desc = None and g = ?g]
      images_carry_contentDescription [OF d url,
        where u = "''https://example.com/logo.png''" and desc = "Some ''Logo''" and g = ?g]
    by simp
qed


section \<open>The validation pass introduces no field\<close>

text \<open>
  C9. For every state of the builder, an optional field that is absent before
  \<open>validatePassObject\<close> is absent after it: each optional field of the pass object, the
  header of each text module, the content description of the logo, of the hero image, of
  each image module and of each app link's logo, the alternate text of the barcode, the
  three app links, and the description and the logo of each of them. The validity
  interval, the grouping info and the pass class are as they were.
\<close>

theorem validatePassObject_introduces_no_field:
  "staysAbsent (hexBackgroundColor (passObject g))
     (hexBackgroundColor (passObject (validatePassObject g)))
   \<and> staysAbsent (cardTitle (passObject g)) (cardTitle (passObject (validatePassObject g)))
   \<and> staysAbsent (header (passObject g)) (header (passObject (validatePassObject g)))
   \<and> staysAbsent (subheader (passObject g)) (subheader (passObject (validatePassObject g)))
   \<and> staysAbsent (linksModuleData (passObject g))
       (linksModuleData (passObject (validatePassObject g)))
   \<and> staysAbsent (locations (passObject g)) (locations (passObject (validatePassObject g)))
   \<and> staysAbsent (customInfoModules (passObject g))
       (customInfoModules (passObject (validatePassObject g)))
   \<and> staysAbsent (additionalInfo (passObject g))
       (additionalInfo (passObject (validatePassObject g)))
   \<and> rel_option (list_all2 (\<lambda>m n. staysAbsent (header_tm m) (header_tm n)))
       (textModulesData (passObject g)) (textModulesData (passObject (validatePassObject g)))
   \<and> imageStaysAbsent (logo (passObject g)) (logo (passObject (validatePassObject g)))
   \<and> imageStaysAbsent (heroImage (passObject g)) (heroImage (passObject (validatePassObject g)))
   \<and> rel_option
       (list_all2 (\<lambda>m n. staysAbsent (contentDescription (mainImage m))
                     (contentDescription (mainImage n))))
       (imageModulesData (passObject g)) (imageModulesData (passObject (validatePassObject g)))
   \<and> rel_option (\<lambda>b c. staysAbsent (alternateText b) (alternateText c))
       (barcode (passObject g)) (barcode (passObject (validatePassObject g)))
   \<and> rel_option
       (\<lambda>d e. appLinkStaysAbsent (androidAppLinkInfo d) (androidAppLinkInfo e)
          \<and> appLinkStaysAbsent (iosAppLinkInfo d) (iosAppLinkInfo e)
          \<and> appLinkStaysAbsent (webAppLinkInfo d) (webAppLinkInfo e))
       (appLinkData (passObject g)) (appLinkData (passObject (validatePassObject g)))
   \<and> validTimeInterval (passObject (validatePassObject g)) = validTimeInterval (passObject g)
   \<and> groupingInfo (passObject (validatePassObject g)) = groupingInfo (passObject g)
   \<and> passClass (validatePassObject g) = passClass g"
  by (simp add: validatePassObject_fields rel_option_map_option list_all2_map_right
      ensureContentDescription_absent ensureTextModule_absent ensureAlternateText_absent
      ensureAppLinkInfo_absent ensureImageModule_def ensureAppLinkData_def)

text \<open>
  The theorem on a new pass with one text module that has no header, and an Android app
  link with neither a description nor a logo.
\<close>

theorem validatePassObject_introduces_no_field_witness:
  "cardTitle (passObject (validatePassObject
      (addAndroidAppLink [] ''android://example'' None None None
         (addTextModule ''info1'' [] None
            (constructor ''test-issuer'' ''test-pass'' ''test-class''))))) = None
   \<and> subheader (passObject (validatePassObject
      (addAndroidAppLink [] ''android://example'' None None None
         (addTextModule ''info1'' [] None
            (constructor ''test-issuer'' ''test-pass'' ''test-class''))))) = None
   \<and> barcode (passObject (validatePassObject
      (addAndroidAppLink [] ''android://example'' None None None
         (addTextModule ''info1'' [] None
            (constructor ''test-issuer'' ''test-pass'' ''test-class''))))) = None
   \<and> textModulesData (passObject (validatePassObject
      (addAndroidAppLink [] ''android://example'' None None None
         (addTextModule ''info1'' [] None
            (constructor ''test-issuer'' ''test-pass'' ''test-class'')))))
      = Some [\<lparr>id_tm = ''info1'', header_tm = None, body = ''Information''\<rparr>]
   \<and> appLinkData (passObject (validatePassObject
      (addAndroidAppLink [] ''android://example'' None None None
         (addTextModule ''info1'' [] None
            (constructor ''test-issuer'' ''test-pass'' ''test-class'')))))
      = Some \<lparr>androidAppLinkInfo =
                 Some \<lparr>appLogoImage = None, title = ''Android App'', description_app = None,
                       appTarget = \<lparr>targetUri = ''android://example''\<rparr>\<rparr>,
               iosAppLinkInfo = None, webAppLinkInfo = None\<rparr>"
  using validatePassObject_introduces_no_field
    [of "addAndroidAppLink [] ''android://example'' None None None
         (addTextModule ''info1'' [] None
            (constructor ''test-issuer'' ''test-pass'' ''test-class''))"]
  by (simp add: validatePassObject_fields addAndroidAppLink_def addTextModule_def
      constructor_def initialized_def initializedAppLinkData_def createAppLinkInfo_def
      whenTruthy_def truthy_None ensureTextModule_def ensureAppLinkData_def
      ensureAppLinkInfo_def ensureNonEmptyString_blank ensureNonEmptyString_head letters)


section \<open>The subheader argument\<close>

text \<open>
  C10. For every header string, \<open>setHeaderInfo\<close> with the empty string as subheader does
  not assign the subheader: the field is as it was, so that a subheader that was absent
  is absent after the call, and after the validation pass too (no \<open>Subheader\<close> fallback
  appears). With a non-empty subheader of white space only, such as one space, the
  subheader is set, to the fallback \<open>Subheader\<close>.
\<close>

theorem setHeaderInfo_empty_subheader:
  "subheader (passObject (setHeaderInfo h (Some []) g)) = subheader (passObject g)
   \<and> (subheader (passObject g) = None \<longrightarrow>
        subheader (passObject (setHeaderInfo h (Some []) g)) = None
        \<and> subheader (passObject (validatePassObject (setHeaderInfo h (Some []) g))) = None)
   \<and> (s \<noteq> [] \<and> (\<forall>c\<in>set s. isWhiteSpace c) \<longrightarrow>
        subheader (passObject (setHeaderInfo h (Some s) g)) =
          Some \<lparr>defaultValue = \<lparr>language = ''en-US'', value_dv = ''Subheader''\<rparr>\<rparr>)"
  by (simp add: setHeaderInfo_def Let_def truthy_def validatePassObject_fields
      ensureNonEmptyString_blank)

theorem setHeaderInfo_empty_subheader_witness:
  "subheader (passObject (constructor ''test-issuer'' ''test-pass'' ''test-class'')) = None
   \<and> subheader (passObject (validatePassObject
        (setHeaderInfo [] (Some []) (constructor ''test-issuer'' ''test-pass'' ''test-class''))))
      = None
   \<and> list_all isWhiteSpace '' ''
   \<and> subheader (passObject
        (setHeaderInfo [] (Some '' '') (constructor ''test-issuer'' ''test-pass'' ''test-class'')))
      = Some \<lparr>defaultValue = \<lparr>language = ''en-US'', value_dv = ''Subheader''\<rparr>\<rparr>"
proof -
  let ?g = "constructor ''test-issuer'' ''test-pass'' ''test-class''"
  have absent: "subheader (passObject ?g) = None"
    by (simp add: constructor_def)
  have blank: "'' '' \<noteq> [] \<and> (\<forall>c\<in>set '' ''. isWhiteSpace c)"
    by (simp add: isWhiteSpace_def)
  from absent blank show ?thesis
    using setHeaderInfo_empty_subheader [where g = ?g and h = "[]" and s = "'' ''"]
    by (simp add: list_all_iff)
qed


end
